theory Spec2Isabelle
  imports Complex_Main
begin

section \<open>JSON values and the Python operations the recommender applies to them\<close>

text \<open>
  Every value the recommender handles comes out of \<^verbatim>\<open>response.json()\<close>. A JSON
  object is kept as the list of its members in document order, read through
  \<open>map_of\<close>; \<open>JNull\<close> is Python's \<^verbatim>\<open>None\<close>. A number is kept by its
  value, a rational: that of a Python \<^verbatim>\<open>int\<close>, or the exact value of a
  \<^verbatim>\<open>float\<close>. The recommender compares numbers with integers and tests them for
  zero, and both depend on the value alone. The one place where it computes with a
  number, the rating window of lines 191-192, is binary floating-point arithmetic
  when the rating is a \<^verbatim>\<open>float\<close>; it is not carried out here (see
  \<open>PGte\<close> and \<open>PLte\<close> below).
\<close>

datatype json =
    JNull
  | JBool bool
  | JNum rat
  | JStr string
  | JArr "json list"
  | JObj "(string \<times> json) list"

text \<open>
  The exceptions the data handling can raise. None of them is a
  \<^verbatim>\<open>requests.exceptions.RequestException\<close>, so no \<^verbatim>\<open>except\<close> clause of the
  source catches them: \<open>Inl e\<close> is the exception \<open>e\<close> reaching the caller.
\<close>

datatype py_error = KeyError | TypeError | AttributeError

definition bindE :: "'e + 'a \<Rightarrow> ('a \<Rightarrow> 'e + 'b) \<Rightarrow> 'e + 'b" where
  "bindE r f = (case r of Inl e \<Rightarrow> Inl e | Inr x \<Rightarrow> f x)"

text \<open>\<^verbatim>\<open>bool(v)\<close>, as \<^verbatim>\<open>if not v\<close> tests it.\<close>

primrec truthy :: "json \<Rightarrow> bool" where
  "truthy JNull = False"
| "truthy (JBool b) = b"
| "truthy (JNum q) = (q \<noteq> 0)"
| "truthy (JStr s) = (s \<noteq> [])"
| "truthy (JArr xs) = (xs \<noteq> [])"
| "truthy (JObj kvs) = (kvs \<noteq> [])"

text \<open>\<^verbatim>\<open>v[k]\<close> for a string key \<open>k\<close>: only a dict can be subscripted by a string.\<close>

primrec py_getitem :: "json \<Rightarrow> string \<Rightarrow> py_error + json" where
  "py_getitem JNull k = Inl TypeError"
| "py_getitem (JBool b) k = Inl TypeError"
| "py_getitem (JNum q) k = Inl TypeError"
| "py_getitem (JStr s) k = Inl TypeError"
| "py_getitem (JArr xs) k = Inl TypeError"
| "py_getitem (JObj kvs) k = (case map_of kvs k of None \<Rightarrow> Inl KeyError | Some v \<Rightarrow> Inr v)"

text \<open>\<^verbatim>\<open>v.get(k, d)\<close>: a method of dicts alone.\<close>

primrec py_get :: "json \<Rightarrow> string \<Rightarrow> json \<Rightarrow> py_error + json" where
  "py_get JNull k d = Inl AttributeError"
| "py_get (JBool b) k d = Inl AttributeError"
| "py_get (JNum q) k d = Inl AttributeError"
| "py_get (JStr s) k d = Inl AttributeError"
| "py_get (JArr xs) k d = Inl AttributeError"
| "py_get (JObj kvs) k d = Inr (case map_of kvs k of None \<Rightarrow> d | Some v \<Rightarrow> v)"

primrec is_substring :: "string \<Rightarrow> string \<Rightarrow> bool" where
  "is_substring p [] = (p = [])"
| "is_substring p (c # cs) = (take (length p) (c # cs) = p \<or> is_substring p cs)"

text \<open>
  \<^verbatim>\<open>k in v\<close> for a string \<open>k\<close>: key membership in a dict, element membership in a
  list, substring test in a string, \<^verbatim>\<open>TypeError\<close> on anything else.
\<close>

primrec py_in :: "string \<Rightarrow> json \<Rightarrow> py_error + bool" where
  "py_in k JNull = Inl TypeError"
| "py_in k (JBool b) = Inl TypeError"
| "py_in k (JNum q) = Inl TypeError"
| "py_in k (JStr s) = Inr (is_substring k s)"
| "py_in k (JArr xs) = Inr (JStr k \<in> set xs)"
| "py_in k (JObj kvs) = Inr (k \<in> set (map fst kvs))"

text \<open>
  The items a \<^verbatim>\<open>for\<close> loop or a comprehension visits: the elements of a list,
  the keys of a dict, the one-character strings of a string.
\<close>

primrec py_iter :: "json \<Rightarrow> py_error + json list" where
  "py_iter JNull = Inl TypeError"
| "py_iter (JBool b) = Inl TypeError"
| "py_iter (JNum q) = Inl TypeError"
| "py_iter (JStr s) = Inr (map (\<lambda>c. JStr [c]) s)"
| "py_iter (JArr xs) = Inr xs"
| "py_iter (JObj kvs) = Inr (map (\<lambda>kv. JStr (fst kv)) kvs)"

text \<open>
  \<^verbatim>\<open>xs[:n]\<close> on a sequence. A negative \<open>n\<close> counts from the end, so that
  \<^verbatim>\<open>xs[:-1]\<close> drops the last element.
\<close>

definition slice_to :: "'a list \<Rightarrow> int \<Rightarrow> 'a list" where
  "slice_to xs n = (if 0 \<le> n then take (nat n) xs else take (length xs - nat (- n)) xs)"

text \<open>
  \<^verbatim>\<open>v[:n]\<close> on a JSON value: lists and strings can be sliced. A dict raises
  (\<^verbatim>\<open>TypeError\<close> up to Python 3.11, \<^verbatim>\<open>KeyError\<close> from 3.12 on; the model
  keeps the former), and so does every scalar.
\<close>

primrec py_slice_to :: "json \<Rightarrow> int \<Rightarrow> py_error + json" where
  "py_slice_to JNull n = Inl TypeError"
| "py_slice_to (JBool b) n = Inl TypeError"
| "py_slice_to (JNum q) n = Inl TypeError"
| "py_slice_to (JStr s) n = Inr (JStr (slice_to s n))"
| "py_slice_to (JArr xs) n = Inr (JArr (slice_to xs n))"
| "py_slice_to (JObj kvs) n = Inl TypeError"

text \<open>\<^verbatim>\<open>len(v)\<close>.\<close>

primrec py_len :: "json \<Rightarrow> py_error + nat" where
  "py_len JNull = Inl TypeError"
| "py_len (JBool b) = Inl TypeError"
| "py_len (JNum q) = Inl TypeError"
| "py_len (JStr s) = Inr (length s)"
| "py_len (JArr xs) = Inr (length xs)"
| "py_len (JObj kvs) = Inr (length kvs)"

text \<open>
  \<^verbatim>\<open>v == m\<close> for an integer \<open>m\<close>: numbers compare by value, \<^verbatim>\<open>True\<close> and
  \<^verbatim>\<open>False\<close> are the integers 1 and 0, and nothing else equals an integer.
\<close>

primrec py_eq_int :: "json \<Rightarrow> int \<Rightarrow> bool" where
  "py_eq_int JNull m = False"
| "py_eq_int (JBool b) m = ((if b then 1 else 0) = m)"
| "py_eq_int (JNum q) m = (q = of_int m)"
| "py_eq_int (JStr s) m = False"
| "py_eq_int (JArr xs) m = False"
| "py_eq_int (JObj kvs) m = False"

text \<open>
  The values that \<^verbatim>\<open>v - 1\<close> and \<^verbatim>\<open>v + 1\<close> accept: numbers, and the booleans,
  which are integers. On anything else \<^verbatim>\<open>v - 1\<close> raises \<^verbatim>\<open>TypeError\<close>.
\<close>

primrec is_number :: "json \<Rightarrow> bool" where
  "is_number JNull = False"
| "is_number (JBool b) = True"
| "is_number (JNum q) = True"
| "is_number (JStr s) = False"
| "is_number (JArr xs) = False"
| "is_number (JObj kvs) = False"

text \<open>A comprehension \<^verbatim>\<open>[f(x) for x in xs]\<close> whose body can raise.\<close>

primrec mapE :: "('a \<Rightarrow> 'e + 'b) \<Rightarrow> 'a list \<Rightarrow> 'e + 'b list" where
  "mapE f [] = Inr []"
| "mapE f (x # xs) =
     (case f x of
        Inl e \<Rightarrow> Inl e
      | Inr y \<Rightarrow> (case mapE f xs of Inl e \<Rightarrow> Inl e | Inr ys \<Rightarrow> Inr (y # ys)))"

text \<open>A comprehension \<^verbatim>\<open>[x for x in xs if p(x)]\<close> whose condition can raise.\<close>

primrec filterE :: "('a \<Rightarrow> 'e + bool) \<Rightarrow> 'a list \<Rightarrow> 'e + 'a list" where
  "filterE p [] = Inr []"
| "filterE p (x # xs) =
     (case p x of
        Inl e \<Rightarrow> Inl e
      | Inr b \<Rightarrow>
          (case filterE p xs of
             Inl e \<Rightarrow> Inl e
           | Inr ys \<Rightarrow> Inr (if b then x # ys else ys)))"

section \<open>The remote API\<close>

text \<open>
  A request is the endpoint under \<^verbatim>\<open>base_url\<close> and the \<^verbatim>\<open>params\<close> dict.
  \<open>Movie i\<close> is \<^verbatim>\<open>/movie/{i}\<close>, \<open>DiscoverMovie\<close> is \<^verbatim>\<open>/discover/movie\<close> and
  \<open>MovieRecommendations i\<close> is \<^verbatim>\<open>/movie/{i}/recommendations\<close>.

  A parameter value is a string literal, a JSON value copied from a response,
  \<^verbatim>\<open>None\<close>, or \<^verbatim>\<open>','.join(map(str, ids))\<close>, which is kept as the list
  \<open>ids\<close> it renders. The two bounds of the rating window are kept as the number
  they are computed from: \<open>PGte v\<close> is \<^verbatim>\<open>max(0, v - 1)\<close> and \<open>PLte v\<close> is
  \<^verbatim>\<open>min(10, v + 1)\<close>, whatever Python's arithmetic makes of them.
\<close>

datatype endpoint = Movie int | DiscoverMovie | MovieRecommendations int

datatype param =
    PStr string | PVal json | PJoin "json list" | PNone | PGte json | PLte json

type_synonym params = "(string \<times> param) list"

datatype request = Get endpoint params

text \<open>
  What \<^verbatim>\<open>requests.get\<close>, \<^verbatim>\<open>raise_for_status\<close> and \<^verbatim>\<open>response.json()\<close>
  give together: the decoded body, or a \<^verbatim>\<open>RequestException\<close> raised by one of
  the three.
\<close>

datatype response = RequestFailed | Json json

type_synonym remote = "request \<Rightarrow> response"

section \<open>MovieRecommender\<close>

text \<open>
  \<^verbatim>\<open>get_movie_details\<close> (lines 41-55): the decoded body, or \<^verbatim>\<open>None\<close> after a
  \<^verbatim>\<open>RequestException\<close>.
\<close>

definition get_movie_details :: "remote \<Rightarrow> string \<Rightarrow> int \<Rightarrow> json" where
  "get_movie_details http api_key movie_id =
     (case http (Get (Movie movie_id)
                   [(''api_key'', PStr api_key),
                    (''append_to_response'', PStr ''credits,keywords'')]) of
        RequestFailed \<Rightarrow> JNull
      | Json body \<Rightarrow> body)"

text \<open>
  The \<^verbatim>\<open>try\<close> block of \<^verbatim>\<open>get_recommendations_by_genre\<close> (lines 73-80) and of
  \<^verbatim>\<open>get_tmdb_recommendations\<close> (lines 216-223):
  \<^verbatim>\<open>return data['results'][:limit]\<close>, and \<^verbatim>\<open>[]\<close> after a
  \<^verbatim>\<open>RequestException\<close>.
\<close>

definition fetch_results :: "remote \<Rightarrow> request \<Rightarrow> int \<Rightarrow> py_error + json" where
  "fetch_results http req limit =
     (case http req of
        RequestFailed \<Rightarrow> Inr (JArr [])
      | Json data \<Rightarrow>
          bindE (py_getitem data ''results'') (\<lambda>results. py_slice_to results limit))"

text \<open>The condition \<^verbatim>\<open>movie['id'] != movie_id\<close> of the filtering comprehension.\<close>

definition not_source :: "int \<Rightarrow> json \<Rightarrow> py_error + bool" where
  "not_source movie_id movie =
     bindE (py_getitem movie ''id'') (\<lambda>v. Inr (\<not> py_eq_int v movie_id))"

text \<open>
  The \<^verbatim>\<open>try\<close> block of the director, cast, keywords and rating functions (lines
  107-115, 138-146, 169-177, 198-206):
  \<^verbatim>\<open>return [movie for movie in data['results'] if movie['id'] != movie_id][:limit]\<close>,
  and \<^verbatim>\<open>[]\<close> after a \<^verbatim>\<open>RequestException\<close>.
\<close>

definition fetch_results_excluding :: "remote \<Rightarrow> request \<Rightarrow> int \<Rightarrow> int \<Rightarrow> py_error + json" where
  "fetch_results_excluding http req movie_id limit =
     (case http req of
        RequestFailed \<Rightarrow> Inr (JArr [])
      | Json data \<Rightarrow>
          bindE (py_getitem data ''results'') (\<lambda>results.
          bindE (py_iter results) (\<lambda>movies.
          bindE (filterE (not_source movie_id) movies) (\<lambda>kept.
          Inr (JArr (slice_to kept limit))))))"

text \<open>
  Each function that issues a discovery query first derives the \<^verbatim>\<open>params\<close> dict
  from the detail record. The derivations below are the function bodies from the
  line after the detail fetch up to the \<^verbatim>\<open>params\<close> literal: \<open>Inr None\<close> is an
  early \<^verbatim>\<open>return []\<close>, \<open>Inr (Some ps)\<close> the dict the request is sent with, and
  \<open>Inl e\<close> an exception raised on the way.
\<close>

text \<open>\<^verbatim>\<open>get_recommendations_by_genre\<close>, lines 60-71.\<close>

definition genre_params :: "string \<Rightarrow> json \<Rightarrow> py_error + params option" where
  "genre_params api_key movie_details =
     (if \<not> truthy movie_details then Inr None
      else bindE (py_in ''genres'' movie_details) (\<lambda>present.
        if \<not> present then Inr None
        else bindE (py_getitem movie_details ''genres'') (\<lambda>genres.
             bindE (py_iter genres) (\<lambda>gs.
             bindE (mapE (\<lambda>genre. py_getitem genre ''id'') gs) (\<lambda>genre_ids.
             Inr (Some [(''api_key'', PStr api_key),
                        (''with_genres'', PJoin genre_ids),
                        (''sort_by'', PStr ''popularity.desc''),
                        (''language'', PStr ''en-US'')]))))))"

text \<open>
  The director search loop (lines 89-93): the first crew member whose
  \<^verbatim>\<open>job\<close> is \<^verbatim>\<open>'Director'\<close>, \<^verbatim>\<open>None\<close> when the loop runs out. Members after
  the match are not looked at.
\<close>

primrec find_director :: "json list \<Rightarrow> py_error + json" where
  "find_director [] = Inr JNull"
| "find_director (crew_member # rest) =
     (case py_getitem crew_member ''job'' of
        Inl e \<Rightarrow> Inl e
      | Inr job \<Rightarrow> if job = JStr ''Director'' then Inr crew_member else find_director rest)"

text \<open>\<^verbatim>\<open>get_recommendations_by_director\<close>, lines 85-105.\<close>

definition director_params :: "string \<Rightarrow> json \<Rightarrow> py_error + params option" where
  "director_params api_key movie_details =
     (if \<not> truthy movie_details then Inr None
      else bindE (py_in ''credits'' movie_details) (\<lambda>present.
        if \<not> present then Inr None
        else bindE (py_getitem movie_details ''credits'') (\<lambda>credits.
             bindE (py_getitem credits ''crew'') (\<lambda>crew.
             bindE (py_iter crew) (\<lambda>crew_members.
             bindE (find_director crew_members) (\<lambda>director.
             if \<not> truthy director then Inr None
             else bindE (py_getitem director ''id'') (\<lambda>director_id.
                  Inr (Some [(''api_key'', PStr api_key),
                             (''with_crew'', PVal director_id),
                             (''sort_by'', PStr ''popularity.desc''),
                             (''language'', PStr ''en-US'')]))))))))"

text \<open>\<^verbatim>\<open>get_recommendations_by_cast\<close>, lines 120-136.\<close>

definition cast_params :: "string \<Rightarrow> json \<Rightarrow> py_error + params option" where
  "cast_params api_key movie_details =
     (if \<not> truthy movie_details then Inr None
      else bindE (py_in ''credits'' movie_details) (\<lambda>present.
        if \<not> present then Inr None
        else bindE (py_getitem movie_details ''credits'') (\<lambda>credits.
             bindE (py_getitem credits ''cast'') (\<lambda>all_cast.
             bindE (py_slice_to all_cast 3) (\<lambda>cast.
             if \<not> truthy cast then Inr None
             else bindE (py_iter cast) (\<lambda>actors.
                  bindE (mapE (\<lambda>actor. py_getitem actor ''id'') actors) (\<lambda>cast_ids.
                  Inr (Some [(''api_key'', PStr api_key),
                             (''with_cast'', PJoin cast_ids),
                             (''sort_by'', PStr ''popularity.desc''),
                             (''language'', PStr ''en-US'')]))))))))"

text \<open>\<^verbatim>\<open>get_recommendations_by_keywords\<close>, lines 151-167.\<close>

definition keywords_params :: "string \<Rightarrow> json \<Rightarrow> py_error + params option" where
  "keywords_params api_key movie_details =
     (if \<not> truthy movie_details then Inr None
      else bindE (py_in ''keywords'' movie_details) (\<lambda>present.
        if \<not> present then Inr None
        else bindE (py_getitem movie_details ''keywords'') (\<lambda>container.
             bindE (py_get container ''keywords'' (JArr [])) (\<lambda>keywords.
             if \<not> truthy keywords then Inr None
             else bindE (py_slice_to keywords 5) (\<lambda>top.
                  bindE (py_iter top) (\<lambda>kws.
                  bindE (mapE (\<lambda>kw. py_getitem kw ''id'') kws) (\<lambda>keyword_ids.
                  Inr (Some [(''api_key'', PStr api_key),
                             (''with_keywords'', PJoin keyword_ids),
                             (''sort_by'', PStr ''popularity.desc''),
                             (''language'', PStr ''en-US'')]))))))))"

text \<open>
  \<^verbatim>\<open>get_recommendations_by_rating\<close>, lines 182-196. The dict literal evaluates
  \<^verbatim>\<open>rating - 1\<close> first, which raises \<^verbatim>\<open>TypeError\<close> unless \<^verbatim>\<open>rating\<close> is a
  number; after that \<^verbatim>\<open>rating + 1\<close>, \<^verbatim>\<open>max\<close> and \<^verbatim>\<open>min\<close> cannot fail.
  The two bounds are recorded, not computed.
\<close>

definition rating_params :: "string \<Rightarrow> json \<Rightarrow> py_error + params option" where
  "rating_params api_key movie_details =
     (if \<not> truthy movie_details then Inr None
      else bindE (py_get movie_details ''vote_average'' (JNum 0)) (\<lambda>rating.
           bindE (py_get movie_details ''genres'' (JArr [])) (\<lambda>genres.
           bindE (py_iter genres) (\<lambda>gs.
           bindE (mapE (\<lambda>genre. py_getitem genre ''id'') gs) (\<lambda>genre_ids.
           if \<not> is_number rating then Inl TypeError
           else Inr (Some [(''api_key'', PStr api_key),
                           (''vote_average.gte'', PGte rating),
                           (''vote_average.lte'', PLte rating),
                           (''with_genres'', if genre_ids \<noteq> [] then PJoin genre_ids else PNone),
                           (''sort_by'', PStr ''popularity.desc''),
                           (''language'', PStr ''en-US'')]))))))"

text \<open>What a function returns once its \<^verbatim>\<open>params\<close> derivation has ended.\<close>

definition discover :: "remote \<Rightarrow> int \<Rightarrow> params option \<Rightarrow> py_error + json" where
  "discover http limit q =
     (case q of
        None \<Rightarrow> Inr (JArr [])
      | Some ps \<Rightarrow> fetch_results http (Get DiscoverMovie ps) limit)"

definition discover_excluding :: "remote \<Rightarrow> int \<Rightarrow> int \<Rightarrow> params option \<Rightarrow> py_error + json" where
  "discover_excluding http movie_id limit q =
     (case q of
        None \<Rightarrow> Inr (JArr [])
      | Some ps \<Rightarrow> fetch_results_excluding http (Get DiscoverMovie ps) movie_id limit)"

definition get_recommendations_by_genre :: "remote \<Rightarrow> string \<Rightarrow> int \<Rightarrow> int \<Rightarrow> py_error + json" where
  "get_recommendations_by_genre http api_key movie_id limit =
     bindE (genre_params api_key (get_movie_details http api_key movie_id))
       (discover http limit)"

definition get_recommendations_by_director :: "remote \<Rightarrow> string \<Rightarrow> int \<Rightarrow> int \<Rightarrow> py_error + json" where
  "get_recommendations_by_director http api_key movie_id limit =
     bindE (director_params api_key (get_movie_details http api_key movie_id))
       (discover_excluding http movie_id limit)"

definition get_recommendations_by_cast :: "remote \<Rightarrow> string \<Rightarrow> int \<Rightarrow> int \<Rightarrow> py_error + json" where
  "get_recommendations_by_cast http api_key movie_id limit =
     bindE (cast_params api_key (get_movie_details http api_key movie_id))
       (discover_excluding http movie_id limit)"

definition get_recommendations_by_keywords :: "remote \<Rightarrow> string \<Rightarrow> int \<Rightarrow> int \<Rightarrow> py_error + json" where
  "get_recommendations_by_keywords http api_key movie_id limit =
     bindE (keywords_params api_key (get_movie_details http api_key movie_id))
       (discover_excluding http movie_id limit)"

definition get_recommendations_by_rating :: "remote \<Rightarrow> string \<Rightarrow> int \<Rightarrow> int \<Rightarrow> py_error + json" where
  "get_recommendations_by_rating http api_key movie_id limit =
     bindE (rating_params api_key (get_movie_details http api_key movie_id))
       (discover_excluding http movie_id limit)"

text \<open>\<^verbatim>\<open>get_tmdb_recommendations\<close> (lines 208-223): no detail fetch.\<close>

definition get_tmdb_recommendations :: "remote \<Rightarrow> string \<Rightarrow> int \<Rightarrow> int \<Rightarrow> py_error + json" where
  "get_tmdb_recommendations http api_key movie_id limit =
     fetch_results http
       (Get (MovieRecommendations movie_id)
          [(''api_key'', PStr api_key), (''language'', PStr ''en-US'')])
       limit"

text \<open>
  The criteria of the menu in \<^verbatim>\<open>main\<close> (choices 1 to 6, lines 307-324) and the
  function each one calls.
\<close>

datatype criterion = Genre | Director | Cast | Keywords | Rating | Combined

primrec get_recommendations ::
  "remote \<Rightarrow> string \<Rightarrow> criterion \<Rightarrow> int \<Rightarrow> int \<Rightarrow> py_error + json" where
  "get_recommendations http api_key Genre = get_recommendations_by_genre http api_key"
| "get_recommendations http api_key Director = get_recommendations_by_director http api_key"
| "get_recommendations http api_key Cast = get_recommendations_by_cast http api_key"
| "get_recommendations http api_key Keywords = get_recommendations_by_keywords http api_key"
| "get_recommendations http api_key Rating = get_recommendations_by_rating http api_key"
| "get_recommendations http api_key Combined = get_tmdb_recommendations http api_key"

section \<open>Notions the properties are stated with\<close>

text \<open>
  The listing request a criterion ends with: \<open>Inr None\<close> when the function returns
  \<^verbatim>\<open>[]\<close> before sending one, \<open>Inl e\<close> when deriving it raises.
\<close>

definition to_request :: "py_error + params option \<Rightarrow> py_error + request option" where
  "to_request r = bindE r (\<lambda>q. Inr (map_option (Get DiscoverMovie) q))"

primrec listing_request ::
  "remote \<Rightarrow> string \<Rightarrow> criterion \<Rightarrow> int \<Rightarrow> py_error + request option" where
  "listing_request http api_key Genre movie_id =
     to_request (genre_params api_key (get_movie_details http api_key movie_id))"
| "listing_request http api_key Director movie_id =
     to_request (director_params api_key (get_movie_details http api_key movie_id))"
| "listing_request http api_key Cast movie_id =
     to_request (cast_params api_key (get_movie_details http api_key movie_id))"
| "listing_request http api_key Keywords movie_id =
     to_request (keywords_params api_key (get_movie_details http api_key movie_id))"
| "listing_request http api_key Rating movie_id =
     to_request (rating_params api_key (get_movie_details http api_key movie_id))"
| "listing_request http api_key Combined movie_id =
     Inr (Some (Get (MovieRecommendations movie_id)
                  [(''api_key'', PStr api_key), (''language'', PStr ''en-US'')]))"

text \<open>The request \<^verbatim>\<open>get_movie_details\<close> sends.\<close>

definition details_request :: "string \<Rightarrow> int \<Rightarrow> request" where
  "details_request api_key movie_id =
     Get (Movie movie_id)
       [(''api_key'', PStr api_key), (''append_to_response'', PStr ''credits,keywords'')]"

text \<open>
  The top-level field of the detail record that a function tests with
  \<^verbatim>\<open>not in\<close> before it reads it.
\<close>

primrec guarded_field :: "criterion \<Rightarrow> string option" where
  "guarded_field Genre = Some ''genres''"
| "guarded_field Director = Some ''credits''"
| "guarded_field Cast = Some ''credits''"
| "guarded_field Keywords = Some ''keywords''"
| "guarded_field Rating = None"
| "guarded_field Combined = None"

text \<open>The \<^verbatim>\<open>id\<close> field of a list entry being \<open>i\<close>, entry by entry.\<close>

definition ids_are :: "json list \<Rightarrow> json list \<Rightarrow> bool" where
  "ids_are entries ids = list_all2 (\<lambda>entry i. py_getitem entry ''id'' = Inr i) entries ids"

text \<open>An entry that the filtering comprehension keeps: its \<^verbatim>\<open>id\<close> is there and
  differs from the source movie's.\<close>

definition other_movie :: "int \<Rightarrow> json \<Rightarrow> bool" where
  "other_movie movie_id movie = (not_source movie_id movie = Inr True)"

text \<open>The discovery parameters around one filter.\<close>

definition discover_params :: "string \<Rightarrow> string \<Rightarrow> param \<Rightarrow> params" where
  "discover_params api_key name v =
     [(''api_key'', PStr api_key), (name, v),
      (''sort_by'', PStr ''popularity.desc''), (''language'', PStr ''en-US'')]"

section \<open>Sample data\<close>

definition summary :: "int \<Rightarrow> string \<Rightarrow> json" where
  "summary i title = JObj [(''id'', JNum (of_int i)), (''title'', JStr title)]"

definition person :: "int \<Rightarrow> string \<Rightarrow> json" where
  "person i job = JObj [(''id'', JNum (of_int i)), (''job'', JStr job)]"

definition tagged :: "int \<Rightarrow> json" where
  "tagged i = JObj [(''id'', JNum (of_int i))]"

definition sample_listing :: json where
  "sample_listing =
     JObj [(''page'', JNum 1),
           (''results'', JArr [summary 155 ''The Dark Knight'', summary 27205 ''Inception'',
                              summary 157336 ''Interstellar'', summary 1124 ''The Prestige''])]"

definition sample_cast :: "json list" where
  "sample_cast = [tagged 6193, tagged 24045, tagged 2524, tagged 3899, tagged 27578]"

definition sample_crew :: "json list" where
  "sample_crew =
     [person 947 ''Original Music Composer'', person 525 ''Director'',
      person 556 ''Producer'', person 9999 ''Director'']"

definition sample_keywords :: "json list" where
  "sample_keywords = [tagged 1, tagged 2, tagged 3, tagged 4, tagged 5, tagged 6]"

definition sample_credits :: json where
  "sample_credits = JObj [(''cast'', JArr sample_cast), (''crew'', JArr sample_crew)]"

definition sample_details :: "json \<Rightarrow> json \<Rightarrow> json" where
  "sample_details vote_average genres =
     JObj [(''id'', JNum 27205),
           (''title'', JStr ''Inception''),
           (''vote_average'', vote_average),
           (''genres'', genres),
           (''credits'', sample_credits),
           (''keywords'', JObj [(''keywords'', JArr sample_keywords)])]"

definition inception :: json where
  "inception = sample_details (JNum (17 / 2)) (JArr [tagged 28, tagged 878, tagged 12])"

text \<open>A remote that answers every detail request with one response and every listing
  request with another.\<close>

primrec answering :: "response \<Rightarrow> response \<Rightarrow> request \<Rightarrow> response" where
  "answering details listing (Get ep ps) =
     (case ep of
        Movie i \<Rightarrow> details
      | DiscoverMovie \<Rightarrow> listing
      | MovieRecommendations i \<Rightarrow> listing)"

definition sample_remote :: remote where
  "sample_remote = answering (Json inception) (Json sample_listing)"

section \<open>Basic facts\<close>

lemma bindE_simps [simp]:
  "bindE (Inl e) f = Inl e"
  "bindE (Inr x) f = f x"
  by (simp_all add: bindE_def)

lemma bindE_eq_Inr: "bindE r f = Inr y \<longleftrightarrow> (\<exists>x. r = Inr x \<and> f x = Inr y)"
  by (cases r) simp_all

lemma set_slice_to: "set (slice_to xs n) \<subseteq> set xs"
  by (auto simp: slice_to_def dest: in_set_takeD)

lemma length_slice_to: "0 \<le> n \<Longrightarrow> int (length (slice_to xs n)) \<le> n"
  by (simp add: slice_to_def)

lemma filterE_eq: "filterE p xs = Inr ys \<Longrightarrow> ys = filter (\<lambda>x. p x = Inr True) xs"
  by (induction xs arbitrary: ys) (auto split: sum.splits if_splits)

lemma filterE_total:
  "\<forall>x\<in>set xs. \<exists>b. p x = Inr b \<Longrightarrow> filterE p xs = Inr (filter (\<lambda>x. p x = Inr True) xs)"
  by (induction xs) (auto split: sum.splits)

lemma mapE_ids: "list_all2 (\<lambda>x y. f x = Inr y) xs ys \<Longrightarrow> mapE f xs = Inr ys"
  by (induction xs ys rule: list_all2_induct) auto

lemma not_source_True:
  "not_source movie_id movie = Inr True \<longleftrightarrow>
     (\<exists>v. py_getitem movie ''id'' = Inr v \<and> \<not> py_eq_int v movie_id)"
  by (auto simp: not_source_def bindE_eq_Inr)

text \<open>Every criterion is its listing request followed by one of the two
  \<^verbatim>\<open>try\<close> blocks.\<close>

lemma to_request_bind:
  "bindE (to_request r) k = bindE r (\<lambda>q. k (map_option (Get DiscoverMovie) q))"
  by (cases r) (simp_all add: to_request_def)

lemma discover_as_request:
  "discover http limit =
     (\<lambda>q. case q of None \<Rightarrow> Inr (JArr [])
          | Some ps \<Rightarrow> fetch_results http (Get DiscoverMovie ps) limit)"
  by (rule ext) (simp add: discover_def)

lemma discover_excluding_as_request:
  "discover_excluding http movie_id limit =
     (\<lambda>q. case q of None \<Rightarrow> Inr (JArr [])
          | Some ps \<Rightarrow> fetch_results_excluding http (Get DiscoverMovie ps) movie_id limit)"
  by (rule ext) (simp add: discover_excluding_def)

lemma get_recommendations_by_listing:
  "get_recommendations http api_key c movie_id limit =
     bindE (listing_request http api_key c movie_id) (\<lambda>q.
       case q of
         None \<Rightarrow> Inr (JArr [])
       | Some req \<Rightarrow>
           if c = Genre \<or> c = Combined then fetch_results http req limit
           else fetch_results_excluding http req movie_id limit)"
  by (cases c)
     (simp_all add: to_request_bind get_recommendations_by_genre_def
        get_recommendations_by_director_def get_recommendations_by_cast_def
        get_recommendations_by_keywords_def get_recommendations_by_rating_def
        get_tmdb_recommendations_def discover_as_request discover_excluding_as_request
        cong: option.case_cong)

lemma getitem_present:
  assumes "py_getitem v k = Inr x"
  shows "truthy v" and "py_in k v = Inr True"
  using assms by (cases v; auto split: option.splits dest: map_of_SomeD simp: rev_image_eqI)+

lemma details_fetched:
  "http (details_request api_key movie_id) = Json movie_details \<Longrightarrow>
   get_movie_details http api_key movie_id = movie_details"
  by (simp add: get_movie_details_def details_request_def)

lemma slice_to_take: "slice_to xs (int n) = take n xs"
  by (simp add: slice_to_def)

lemma find_director_find:
  assumes "\<forall>member\<in>set crew. \<exists>job. py_getitem member ''job'' = Inr job"
  shows "find_director crew =
     (case find (\<lambda>member. py_getitem member ''job'' = Inr (JStr ''Director'')) crew of
        None \<Rightarrow> Inr JNull
      | Some director \<Rightarrow> Inr director)"
  using assms by (induction crew) auto

lemmas sample_defs =
  sample_remote_def inception_def sample_details_def sample_listing_def
  sample_credits_def sample_cast_def sample_crew_def sample_keywords_def
  summary_def person_def tagged_def get_movie_details_def

lemmas run_defs =
  get_recommendations_by_genre_def get_recommendations_by_director_def
  get_recommendations_by_cast_def get_recommendations_by_keywords_def
  get_recommendations_by_rating_def get_tmdb_recommendations_def
  genre_params_def director_params_def cast_params_def keywords_params_def rating_params_def
  discover_def discover_excluding_def fetch_results_def fetch_results_excluding_def
  not_source_def slice_to_def to_request_def discover_params_def

lemma fetch_results_failed:
  "http req = RequestFailed \<Longrightarrow> fetch_results http req limit = Inr (JArr [])"
  by (simp add: fetch_results_def)

lemma fetch_results_excluding_failed:
  "http req = RequestFailed \<Longrightarrow> fetch_results_excluding http req movie_id limit = Inr (JArr [])"
  by (simp add: fetch_results_excluding_def)

lemma details_failed:
  "http (details_request api_key movie_id) = RequestFailed \<Longrightarrow>
   get_movie_details http api_key movie_id = JNull"
  by (simp add: get_movie_details_def details_request_def)

lemma falsy_details:
  assumes "c \<noteq> Combined" and "\<not> truthy (get_movie_details http api_key movie_id)"
  shows "get_recommendations http api_key c movie_id limit = Inr (JArr [])"
  using assms
  by (cases c)
     (simp_all add: get_recommendations_by_genre_def get_recommendations_by_director_def
        get_recommendations_by_cast_def get_recommendations_by_keywords_def
        get_recommendations_by_rating_def genre_params_def director_params_def cast_params_def
        keywords_params_def rating_params_def discover_def discover_excluding_def)

lemma unguarded_field:
  assumes "guarded_field c = Some field"
    and "get_movie_details http api_key movie_id = JObj members"
    and "field \<notin> fst ` set members"
  shows "get_recommendations http api_key c movie_id limit = Inr (JArr [])"
  using assms
  by (cases c)
     (auto simp: get_recommendations_by_genre_def get_recommendations_by_director_def
        get_recommendations_by_cast_def get_recommendations_by_keywords_def
        genre_params_def director_params_def cast_params_def
        keywords_params_def discover_def discover_excluding_def)

lemma fetch_results_length:
  assumes "0 \<le> limit" and "fetch_results http req limit = Inr r"
  shows "\<exists>n. py_len r = Inr n \<and> int n \<le> limit"
proof (cases "http req")
  case RequestFailed
  with assms show ?thesis by (auto simp: fetch_results_def)
next
  case (Json data)
  with assms obtain results where "py_slice_to results limit = Inr r"
    by (auto simp: fetch_results_def bindE_eq_Inr)
  with assms(1) show ?thesis
    by (cases results) (auto simp: length_slice_to)
qed

lemma fetch_results_excluding_length:
  assumes "0 \<le> limit" and "fetch_results_excluding http req movie_id limit = Inr r"
  shows "\<exists>n. py_len r = Inr n \<and> int n \<le> limit"
proof (cases "http req")
  case RequestFailed
  with assms show ?thesis by (auto simp: fetch_results_excluding_def)
next
  case (Json data)
  with assms obtain kept where "r = JArr (slice_to kept limit)"
    by (auto simp: fetch_results_excluding_def bindE_eq_Inr)
  with assms(1) show ?thesis by (simp add: length_slice_to)
qed

section \<open>Self-exclusion\<close>

lemma fetch_results_excluding_sound:
  assumes "fetch_results_excluding http req movie_id limit = Inr r"
  shows "\<exists>movies. r = JArr movies \<and>
           (\<forall>movie\<in>set movies. \<exists>v. py_getitem movie ''id'' = Inr v \<and> \<not> py_eq_int v movie_id)"
proof (cases "http req")
  case RequestFailed
  with assms show ?thesis by (auto simp: fetch_results_excluding_def)
next
  case (Json data)
  with assms obtain results movies kept where
    kept: "filterE (not_source movie_id) movies = Inr kept" and r: "r = JArr (slice_to kept limit)"
    by (auto simp: fetch_results_excluding_def bindE_eq_Inr)
  from filterE_eq [OF kept] have "\<forall>movie\<in>set kept. not_source movie_id movie = Inr True"
    by simp
  with set_slice_to [of kept limit]
  have "\<forall>movie\<in>set (slice_to kept limit). not_source movie_id movie = Inr True"
    by blast
  with r show ?thesis by (simp add: not_source_True)
qed

text \<open>
  C1. Under the director, cast, keywords and rating criteria, whatever the remote
  answers, a returned recommendation sequence is a list each of whose entries has an
  \<^verbatim>\<open>id\<close> that Python's \<^verbatim>\<open>==\<close> tells apart from the source movie's id: the
  source movie is never among the results, also when the remote lists it.
\<close>

theorem source_movie_excluded:
  assumes "c \<noteq> Genre" and "c \<noteq> Combined"
    and "get_recommendations http api_key c movie_id limit = Inr r"
  shows "\<exists>movies. r = JArr movies \<and>
           (\<forall>movie\<in>set movies. \<exists>v. py_getitem movie ''id'' = Inr v \<and> \<not> py_eq_int v movie_id)"
proof -
  from assms(3) obtain q where
    q: "(case q of None \<Rightarrow> Inr (JArr [])
         | Some req \<Rightarrow>
             if c = Genre \<or> c = Combined then fetch_results http req limit
             else fetch_results_excluding http req movie_id limit) = Inr r"
    by (auto simp: get_recommendations_by_listing bindE_eq_Inr)
  show ?thesis
  proof (cases q)
    case None
    with q show ?thesis by auto
  next
    case (Some req)
    with q assms(1,2) show ?thesis by (simp add: fetch_results_excluding_sound)
  qed
qed

text \<open>
  The sample remote lists Inception (27205) among the results of every discovery
  query; the director criterion returns the three other movies.
\<close>

theorem source_movie_excluded_witness:
  "Director \<noteq> Genre \<and> Director \<noteq> Combined \<and>
   get_recommendations sample_remote ''key'' Director 27205 10 =
     Inr (JArr [summary 155 ''The Dark Knight'', summary 157336 ''Interstellar'',
                summary 1124 ''The Prestige'']) \<and>
   (\<exists>movies. JArr [summary 155 ''The Dark Knight'', summary 157336 ''Interstellar'',
                   summary 1124 ''The Prestige''] = JArr movies \<and>
      (\<forall>movie\<in>set movies. \<exists>v. py_getitem movie ''id'' = Inr v \<and> \<not> py_eq_int v 27205))"
proof -
  have run: "get_recommendations sample_remote ''key'' Director 27205 10 =
     Inr (JArr [summary 155 ''The Dark Knight'', summary 157336 ''Interstellar'',
                summary 1124 ''The Prestige''])"
    by (simp add: get_recommendations_by_director_def director_params_def sample_defs
          discover_excluding_def fetch_results_excluding_def not_source_def slice_to_def)
  have "Director \<noteq> Genre" and "Director \<noteq> Combined" by simp_all
  from source_movie_excluded [OF this run] run show ?thesis by simp
qed

text \<open>
  C2. The genre function and the native recommendation function return
  \<^verbatim>\<open>data['results'][:limit]\<close> as the remote sent it, with no filtering
  comprehension. When the remote lists the source movie, both return it: for
  Inception (27205) the sample remote's list comes back whole, and its second entry
  has the id 27205.
\<close>

theorem genre_lists_source_movie:
  "get_recommendations sample_remote ''key'' Genre 27205 10 =
     Inr (JArr [summary 155 ''The Dark Knight'', summary 27205 ''Inception'',
                summary 157336 ''Interstellar'', summary 1124 ''The Prestige'']) \<and>
   get_recommendations sample_remote ''key'' Combined 27205 10 =
     Inr (JArr [summary 155 ''The Dark Knight'', summary 27205 ''Inception'',
                summary 157336 ''Interstellar'', summary 1124 ''The Prestige'']) \<and>
   py_getitem (summary 27205 ''Inception'') ''id'' = Inr (JNum 27205) \<and>
   py_eq_int (JNum 27205) 27205"
  by (simp add: run_defs sample_defs)

section \<open>The filter each criterion derives\<close>

text \<open>
  C3. Take a detail record with a \<^verbatim>\<open>credits\<close> object whose \<^verbatim>\<open>crew\<close> is a list of
  entries that each have a \<^verbatim>\<open>job\<close>. The director criterion sends its discovery query
  with \<^verbatim>\<open>with_crew\<close> set to the \<^verbatim>\<open>id\<close> of the first entry, in the order of the
  response, whose job equals \<^verbatim>\<open>'Director'\<close>, and returns what the filtering
  \<^verbatim>\<open>try\<close> block makes of the answer; when no entry has that job it returns the
  empty list.
\<close>

theorem director_filter:
  assumes "http (details_request api_key movie_id) = Json movie_details"
    and "py_getitem movie_details ''credits'' = Inr credits"
    and "py_getitem credits ''crew'' = Inr (JArr crew)"
    and "\<forall>member\<in>set crew. \<exists>job. py_getitem member ''job'' = Inr job"
  shows "get_recommendations_by_director http api_key movie_id limit =
     (case find (\<lambda>member. py_getitem member ''job'' = Inr (JStr ''Director'')) crew of
        None \<Rightarrow> Inr (JArr [])
      | Some director \<Rightarrow>
          bindE (py_getitem director ''id'') (\<lambda>director_id.
            fetch_results_excluding http
              (Get DiscoverMovie (discover_params api_key ''with_crew'' (PVal director_id)))
              movie_id limit))"
proof (cases "find (\<lambda>member. py_getitem member ''job'' = Inr (JStr ''Director'')) crew")
  case None
  with assms show ?thesis
    by (simp add: get_recommendations_by_director_def director_params_def details_fetched
          getitem_present find_director_find discover_excluding_def)
next
  case (Some director)
  then have "py_getitem director ''job'' = Inr (JStr ''Director'')"
    by (auto simp: find_Some_iff)
  then have "truthy director" by (rule getitem_present)
  with Some assms show ?thesis
    by (cases "py_getitem director ''id''")
       (simp_all add: get_recommendations_by_director_def director_params_def details_fetched
          getitem_present find_director_find discover_excluding_def discover_params_def)
qed

text \<open>
  The sample crew lists a composer, the director 525, a producer and a second
  director 9999: the query goes out for 525. A crew of one producer gives the
  empty list.
\<close>

theorem director_filter_witness:
  "get_recommendations_by_director sample_remote ''key'' 27205 10 =
     fetch_results_excluding sample_remote
       (Get DiscoverMovie (discover_params ''key'' ''with_crew'' (PVal (JNum 525)))) 27205 10 \<and>
   get_recommendations_by_director
       (answering (Json (JObj [(''credits'', JObj [(''crew'', JArr [person 556 ''Producer''])])]))
          (Json sample_listing)) ''key'' 27205 10 =
     Inr (JArr [])"
proof -
  have a: "sample_remote (details_request ''key'' 27205) = Json inception"
    by (simp add: sample_remote_def details_request_def)
  have b: "py_getitem inception ''credits'' = Inr sample_credits"
    by (simp add: inception_def sample_details_def)
  have c: "py_getitem sample_credits ''crew'' = Inr (JArr sample_crew)"
    by (simp add: sample_credits_def)
  have d: "\<forall>member\<in>set sample_crew. \<exists>job. py_getitem member ''job'' = Inr job"
    by (simp add: sample_crew_def person_def)
  have a': "answering (Json (JObj [(''credits'', JObj [(''crew'', JArr [person 556 ''Producer''])])]))
          (Json sample_listing) (details_request ''key'' 27205) =
        Json (JObj [(''credits'', JObj [(''crew'', JArr [person 556 ''Producer''])])])"
    by (simp add: details_request_def)
  have b': "py_getitem (JObj [(''credits'', JObj [(''crew'', JArr [person 556 ''Producer''])])]) ''credits'' =
        Inr (JObj [(''crew'', JArr [person 556 ''Producer''])])"
    by simp
  have c': "py_getitem (JObj [(''crew'', JArr [person 556 ''Producer''])]) ''crew'' =
        Inr (JArr [person 556 ''Producer''])"
    by simp
  have d': "\<forall>member\<in>set [person 556 ''Producer'']. \<exists>job. py_getitem member ''job'' = Inr job"
    by (simp add: person_def)
  from director_filter [where http = sample_remote and limit = 10, OF a b c d]
    director_filter
      [where http = "answering (Json (JObj [(''credits'', JObj [(''crew'', JArr [person 556 ''Producer''])])]))
          (Json sample_listing)" and limit = 10, OF a' b' c' d']
  show ?thesis by (simp add: sample_crew_def person_def)
qed

text \<open>
  C5. Take a detail record with a \<^verbatim>\<open>credits\<close> object whose \<^verbatim>\<open>cast\<close> is a list. When
  the list is empty the cast criterion returns the empty list. Otherwise it sends its
  discovery query with \<^verbatim>\<open>with_cast\<close> made of the ids of the first three entries, in
  their order, and of nothing else: entries after the third are never read.
\<close>

theorem cast_filter:
  assumes "http (details_request api_key movie_id) = Json movie_details"
    and "py_getitem movie_details ''credits'' = Inr credits"
    and "py_getitem credits ''cast'' = Inr (JArr cast)"
    and "ids_are (take 3 cast) cast_ids"
  shows "get_recommendations_by_cast http api_key movie_id limit =
     (if cast = [] then Inr (JArr [])
      else fetch_results_excluding http
             (Get DiscoverMovie (discover_params api_key ''with_cast'' (PJoin cast_ids)))
             movie_id limit)"
proof -
  have "slice_to cast 3 = take 3 cast"
    using slice_to_take [of cast 3] by simp
  moreover from assms(4) have "mapE (\<lambda>actor. py_getitem actor ''id'') (take 3 cast) = Inr cast_ids"
    unfolding ids_are_def by (rule mapE_ids)
  ultimately show ?thesis using assms(1-3)
    by (simp add: get_recommendations_by_cast_def cast_params_def details_fetched
          getitem_present discover_excluding_def discover_params_def)
qed

text \<open>The sample cast has five entries; the query carries the first three ids.\<close>

theorem cast_filter_witness:
  "length sample_cast = 5 \<and>
   get_recommendations_by_cast sample_remote ''key'' 27205 10 =
     fetch_results_excluding sample_remote
       (Get DiscoverMovie
          (discover_params ''key'' ''with_cast'' (PJoin [JNum 6193, JNum 24045, JNum 2524])))
       27205 10 \<and>
   get_recommendations_by_cast
       (answering (Json (JObj [(''credits'', JObj [(''cast'', JArr [])])])) (Json sample_listing))
       ''key'' 27205 10 =
     Inr (JArr [])"
proof -
  have a: "sample_remote (details_request ''key'' 27205) = Json inception"
    by (simp add: sample_remote_def details_request_def)
  have b: "py_getitem inception ''credits'' = Inr sample_credits"
    by (simp add: inception_def sample_details_def)
  have c: "py_getitem sample_credits ''cast'' = Inr (JArr sample_cast)"
    by (simp add: sample_credits_def)
  have d: "ids_are (take 3 sample_cast) [JNum 6193, JNum 24045, JNum 2524]"
    by (simp add: ids_are_def sample_cast_def tagged_def)
  have a': "answering (Json (JObj [(''credits'', JObj [(''cast'', JArr [])])])) (Json sample_listing)
          (details_request ''key'' 27205) =
        Json (JObj [(''credits'', JObj [(''cast'', JArr [])])])"
    by (simp add: details_request_def)
  have b': "py_getitem (JObj [(''credits'', JObj [(''cast'', JArr [])])]) ''credits'' =
        Inr (JObj [(''cast'', JArr [])])"
    by simp
  have c': "py_getitem (JObj [(''cast'', JArr [])]) ''cast'' = Inr (JArr [])"
    by simp
  have d': "ids_are (take 3 []) []"
    by (simp add: ids_are_def)
  from cast_filter [where http = sample_remote and limit = 10, OF a b c d]
    cast_filter
      [where http = "answering (Json (JObj [(''credits'', JObj [(''cast'', JArr [])])])) (Json sample_listing)"
         and limit = 10, OF a' b' c' d']
  show ?thesis by (simp add: sample_cast_def)
qed

text \<open>
  C6. Take a detail record with a \<^verbatim>\<open>keywords\<close> object whose \<^verbatim>\<open>keywords\<close> member,
  read with default \<^verbatim>\<open>[]\<close>, is a list. When the list is empty the keywords criterion
  returns the empty list. Otherwise it sends its discovery query with
  \<^verbatim>\<open>with_keywords\<close> made of the ids of the first five entries in the order of the
  response.
\<close>

theorem keywords_filter:
  assumes "http (details_request api_key movie_id) = Json movie_details"
    and "py_getitem movie_details ''keywords'' = Inr container"
    and "py_get container ''keywords'' (JArr []) = Inr (JArr kws)"
    and "ids_are (take 5 kws) keyword_ids"
  shows "get_recommendations_by_keywords http api_key movie_id limit =
     (if kws = [] then Inr (JArr [])
      else fetch_results_excluding http
             (Get DiscoverMovie (discover_params api_key ''with_keywords'' (PJoin keyword_ids)))
             movie_id limit)"
proof -
  have "slice_to kws 5 = take 5 kws"
    using slice_to_take [of kws 5] by simp
  moreover from assms(4) have "mapE (\<lambda>kw. py_getitem kw ''id'') (take 5 kws) = Inr keyword_ids"
    unfolding ids_are_def by (rule mapE_ids)
  ultimately show ?thesis using assms(1-3)
    by (simp add: get_recommendations_by_keywords_def keywords_params_def details_fetched
          getitem_present discover_excluding_def discover_params_def)
qed

text \<open>The sample record has six keywords; the query carries the first five ids.\<close>

theorem keywords_filter_witness:
  "length sample_keywords = 6 \<and>
   get_recommendations_by_keywords sample_remote ''key'' 27205 10 =
     fetch_results_excluding sample_remote
       (Get DiscoverMovie
          (discover_params ''key'' ''with_keywords''
             (PJoin [JNum 1, JNum 2, JNum 3, JNum 4, JNum 5])))
       27205 10 \<and>
   get_recommendations_by_keywords
       (answering (Json (JObj [(''keywords'', JObj [(''keywords'', JArr [])])])) (Json sample_listing))
       ''key'' 27205 10 =
     Inr (JArr [])"
proof -
  have a: "sample_remote (details_request ''key'' 27205) = Json inception"
    by (simp add: sample_remote_def details_request_def)
  have b: "py_getitem inception ''keywords'' = Inr (JObj [(''keywords'', JArr sample_keywords)])"
    by (simp add: inception_def sample_details_def)
  have c: "py_get (JObj [(''keywords'', JArr sample_keywords)]) ''keywords'' (JArr []) =
        Inr (JArr sample_keywords)"
    by simp
  have d: "ids_are (take 5 sample_keywords) [JNum 1, JNum 2, JNum 3, JNum 4, JNum 5]"
    by (simp add: ids_are_def sample_keywords_def tagged_def)
  have a': "answering (Json (JObj [(''keywords'', JObj [(''keywords'', JArr [])])])) (Json sample_listing)
          (details_request ''key'' 27205) =
        Json (JObj [(''keywords'', JObj [(''keywords'', JArr [])])])"
    by (simp add: details_request_def)
  have b': "py_getitem (JObj [(''keywords'', JObj [(''keywords'', JArr [])])]) ''keywords'' =
        Inr (JObj [(''keywords'', JArr [])])"
    by simp
  have c': "py_get (JObj [(''keywords'', JArr [])]) ''keywords'' (JArr []) = Inr (JArr [])"
    by simp
  have d': "ids_are (take 5 []) []"
    by (simp add: ids_are_def)
  from keywords_filter [where http = sample_remote and limit = 10, OF a b c d]
    keywords_filter
      [where http = "answering (Json (JObj [(''keywords'', JObj [(''keywords'', JArr [])])])) (Json sample_listing)"
         and limit = 10, OF a' b' c' d']
  show ?thesis by (simp add: sample_keywords_def)
qed


text \<open>
  The genre criterion, for a detail record whose \<^verbatim>\<open>genres\<close> is a list of entries
  with ids: the query carries all of the ids, in the order of the record. A record
  without the field gives the empty list.
\<close>

lemma genre_filter:
  assumes "http (details_request api_key movie_id) = Json movie_details"
    and "py_getitem movie_details ''genres'' = Inr (JArr genres)"
    and "ids_are genres genre_ids"
  shows "get_recommendations_by_genre http api_key movie_id limit =
           fetch_results http
             (Get DiscoverMovie (discover_params api_key ''with_genres'' (PJoin genre_ids)))
             limit"
proof -
  from assms(3) have "mapE (\<lambda>genre. py_getitem genre ''id'') genres = Inr genre_ids"
    unfolding ids_are_def by (rule mapE_ids)
  with assms(1,2) show ?thesis
    by (simp add: get_recommendations_by_genre_def genre_params_def details_fetched
          getitem_present discover_def discover_params_def)
qed

lemma genre_missing:
  assumes "http (details_request api_key movie_id) = Json (JObj members)"
    and "''genres'' \<notin> fst ` set members"
  shows "get_recommendations_by_genre http api_key movie_id limit = Inr (JArr [])"
proof -
  from assms(1) have "get_movie_details http api_key movie_id = JObj members"
    by (rule details_fetched)
  with assms(2) show ?thesis
    using unguarded_field [where c = Genre and field = "''genres''" and http = http]
    by simp
qed

text \<open>
  C7. With a \<^verbatim>\<open>genres\<close> field that is present and empty, the genre function does not
  return early: the test at line 60 looks for the key alone. It sends the discovery
  query with an empty \<^verbatim>\<open>with_genres\<close> and returns what comes back, here the four
  movies of the sample list.
\<close>

theorem genre_empty_genres_still_queries:
  "listing_request
     (answering (Json (sample_details (JNum (17 / 2)) (JArr []))) (Json sample_listing))
     ''key'' Genre 27205 =
     Inr (Some (Get DiscoverMovie (discover_params ''key'' ''with_genres'' (PJoin [])))) \<and>
   get_recommendations_by_genre
     (answering (Json (sample_details (JNum (17 / 2)) (JArr []))) (Json sample_listing))
     ''key'' 27205 10 =
     Inr (JArr [summary 155 ''The Dark Knight'', summary 27205 ''Inception'',
                summary 157336 ''Interstellar'', summary 1124 ''The Prestige''])"
  by (simp add: run_defs sample_defs)

section \<open>Failures\<close>

text \<open>
  C8, as stated, fails: the \<^verbatim>\<open>except\<close> clauses catch
  \<^verbatim>\<open>RequestException\<close> alone. A \<^verbatim>\<open>credits\<close> object without \<^verbatim>\<open>crew\<close> makes
  the director function raise \<^verbatim>\<open>KeyError\<close>, and so does a discovery answer without
  \<^verbatim>\<open>results\<close> in the genre function.
\<close>

theorem data_shape_failure_raises:
  "get_recommendations
     (answering (Json (JObj [(''id'', JNum 27205), (''credits'', JObj [(''cast'', JArr sample_cast)])]))
        (Json sample_listing))
     ''key'' Director 27205 10 = Inl KeyError \<and>
   get_recommendations
     (answering (Json inception) (Json (JObj [(''status_message'', JStr ''Invalid'')])))
     ''key'' Genre 27205 10 = Inl KeyError"
  by (simp add: run_defs sample_defs)

text \<open>
  C8, amended. For every criterion the result is the empty list, and nothing is
  raised, when the detail request meets a transport failure, when the listing request
  the criterion sends meets one, when the detail record is falsy (\<^verbatim>\<open>None\<close>, an
  empty object), or when the detail record is an object without the top-level field
  the criterion tests for (\<^verbatim>\<open>genres\<close>, \<^verbatim>\<open>credits\<close>, \<^verbatim>\<open>keywords\<close>).
\<close>

theorem transport_failure_empty:
  "(c \<noteq> Combined \<and> http (details_request api_key movie_id) = RequestFailed \<longrightarrow>
      get_recommendations http api_key c movie_id limit = Inr (JArr [])) \<and>
   (listing_request http api_key c movie_id = Inr (Some req) \<and> http req = RequestFailed \<longrightarrow>
      get_recommendations http api_key c movie_id limit = Inr (JArr [])) \<and>
   (c \<noteq> Combined \<and> http (details_request api_key movie_id) = Json movie_details \<and>
    \<not> truthy movie_details \<longrightarrow>
      get_recommendations http api_key c movie_id limit = Inr (JArr [])) \<and>
   (guarded_field c = Some field \<and>
    http (details_request api_key movie_id) = Json (JObj members) \<and>
    field \<notin> fst ` set members \<longrightarrow>
      get_recommendations http api_key c movie_id limit = Inr (JArr []))"
proof (intro conjI impI; elim conjE)
  assume "c \<noteq> Combined" and "http (details_request api_key movie_id) = RequestFailed"
  then show "get_recommendations http api_key c movie_id limit = Inr (JArr [])"
    by (simp add: falsy_details details_failed)
next
  assume "listing_request http api_key c movie_id = Inr (Some req)" and "http req = RequestFailed"
  then show "get_recommendations http api_key c movie_id limit = Inr (JArr [])"
    by (simp add: get_recommendations_by_listing fetch_results_failed
          fetch_results_excluding_failed)
next
  assume "c \<noteq> Combined" and "http (details_request api_key movie_id) = Json movie_details"
    and "\<not> truthy movie_details"
  then show "get_recommendations http api_key c movie_id limit = Inr (JArr [])"
    by (simp add: falsy_details details_fetched)
next
  assume "guarded_field c = Some field"
    and "http (details_request api_key movie_id) = Json (JObj members)"
    and "field \<notin> fst ` set members"
  then show "get_recommendations http api_key c movie_id limit = Inr (JArr [])"
    by (simp add: unguarded_field [where field = field and members = members] details_fetched)
qed

text \<open>
  One run for each case: a failed detail request under the director criterion, a
  failed discovery request under the cast criterion, an empty detail object under the
  rating criterion, a record without \<^verbatim>\<open>keywords\<close> under the keywords criterion.
\<close>

theorem transport_failure_empty_witness:
  "get_recommendations (answering RequestFailed (Json sample_listing)) ''key'' Director 27205 10 =
     Inr (JArr []) \<and>
   get_recommendations (answering (Json inception) RequestFailed) ''key'' Cast 27205 10 =
     Inr (JArr []) \<and>
   get_recommendations (answering (Json (JObj [])) (Json sample_listing)) ''key'' Rating 27205 10 =
     Inr (JArr []) \<and>
   get_recommendations (answering (Json (JObj [(''id'', JNum 27205)])) (Json sample_listing))
     ''key'' Keywords 27205 10 = Inr (JArr [])"
proof -
  let ?cast_query =
    "Get DiscoverMovie
       (discover_params ''key'' ''with_cast'' (PJoin [JNum 6193, JNum 24045, JNum 2524]))"
  have a: "Director \<noteq> Combined \<and>
      answering RequestFailed (Json sample_listing) (details_request ''key'' 27205) = RequestFailed"
    by (simp add: details_request_def)
  have b: "listing_request (answering (Json inception) RequestFailed) ''key'' Cast 27205 =
        Inr (Some ?cast_query) \<and>
      answering (Json inception) RequestFailed ?cast_query = RequestFailed"
    by (simp add: run_defs sample_defs)
  have c: "Rating \<noteq> Combined \<and>
      answering (Json (JObj [])) (Json sample_listing) (details_request ''key'' 27205) = Json (JObj []) \<and>
      \<not> truthy (JObj [])"
    by (simp add: details_request_def)
  have d: "guarded_field Keywords = Some ''keywords'' \<and>
      answering (Json (JObj [(''id'', JNum 27205)])) (Json sample_listing)
        (details_request ''key'' 27205) = Json (JObj [(''id'', JNum 27205)]) \<and>
      ''keywords'' \<notin> fst ` set [(''id'', JNum 27205)]"
    by (simp add: details_request_def)
  from transport_failure_empty
         [where c = Director and http = "answering RequestFailed (Json sample_listing)"
            and api_key = "''key''" and movie_id = 27205 and limit = 10,
          THEN conjunct1, rule_format, OF a]
    transport_failure_empty
         [where c = Cast and http = "answering (Json inception) RequestFailed"
            and api_key = "''key''" and movie_id = 27205 and limit = 10 and req = ?cast_query,
          THEN conjunct2, THEN conjunct1, rule_format, OF b]
    transport_failure_empty
         [where c = Rating and http = "answering (Json (JObj [])) (Json sample_listing)"
            and api_key = "''key''" and movie_id = 27205 and limit = 10
            and movie_details = "JObj []",
          THEN conjunct2, THEN conjunct2, THEN conjunct1, rule_format, OF c]
    transport_failure_empty
         [where c = Keywords
            and http = "answering (Json (JObj [(''id'', JNum 27205)])) (Json sample_listing)"
            and api_key = "''key''" and movie_id = 27205 and limit = 10
            and field = "''keywords''" and members = "[(''id'', JNum 27205)]",
          THEN conjunct2, THEN conjunct2, THEN conjunct2, rule_format, OF d]
  show ?thesis by simp
qed

section \<open>The limit\<close>

text \<open>
  C9, as stated, fails for a negative limit: \<^verbatim>\<open>[:-1]\<close> drops the last entry of
  the list, and three entries are more than \<open>-1\<close>.
\<close>

theorem more_than_limit_returned:
  "get_recommendations sample_remote ''key'' Genre 27205 (- 1) =
     Inr (JArr [summary 155 ''The Dark Knight'', summary 27205 ''Inception'',
                summary 157336 ''Interstellar'']) \<and>
   py_len (JArr [summary 155 ''The Dark Knight'', summary 27205 ''Inception'',
                 summary 157336 ''Interstellar'']) = Inr 3 \<and>
   \<not> int 3 \<le> - 1"
  by (simp add: run_defs sample_defs)

text \<open>
  C9, amended. For every criterion and every limit that is not negative, a returned
  value has a length, and the length is at most the limit.
\<close>

theorem at_most_limit:
  assumes "0 \<le> limit" and "get_recommendations http api_key c movie_id limit = Inr r"
  shows "\<exists>n. py_len r = Inr n \<and> int n \<le> limit"
proof -
  from assms(2) obtain q where
    q: "(case q of None \<Rightarrow> Inr (JArr [])
         | Some req \<Rightarrow>
             if c = Genre \<or> c = Combined then fetch_results http req limit
             else fetch_results_excluding http req movie_id limit) = Inr r"
    by (auto simp: get_recommendations_by_listing bindE_eq_Inr)
  show ?thesis
  proof (cases q)
    case None
    with q assms(1) show ?thesis by auto
  next
    case (Some req)
    with q assms(1) show ?thesis
      by (auto simp: fetch_results_length fetch_results_excluding_length split: if_splits)
  qed
qed

text \<open>With limit 2 the genre criterion returns the first two entries of the sample list.\<close>

theorem at_most_limit_witness:
  "(0::int) \<le> 2 \<and>
   get_recommendations sample_remote ''key'' Genre 27205 2 =
     Inr (JArr [summary 155 ''The Dark Knight'', summary 27205 ''Inception'']) \<and>
   (\<exists>n. py_len (JArr [summary 155 ''The Dark Knight'', summary 27205 ''Inception'']) = Inr n \<and>
        int n \<le> 2)"
proof -
  have run: "get_recommendations sample_remote ''key'' Genre 27205 2 =
     Inr (JArr [summary 155 ''The Dark Knight'', summary 27205 ''Inception''])"
    by (simp add: run_defs sample_defs)
  have "(0::int) \<le> 2" by simp
  from at_most_limit [OF this run] run show ?thesis by simp
qed

text \<open>
  C10, as stated, fails for a negative limit: the sample list has three entries other
  than the source movie, which is at least \<open>-1\<close>, and the director criterion
  returns two entries, not \<open>-1\<close>.
\<close>

theorem negative_limit_not_exact:
  "py_getitem sample_listing ''results'' =
     Inr (JArr [summary 155 ''The Dark Knight'', summary 27205 ''Inception'',
                summary 157336 ''Interstellar'', summary 1124 ''The Prestige'']) \<and>
   - 1 \<le> int (length (filter (other_movie 27205)
                  [summary 155 ''The Dark Knight'', summary 27205 ''Inception'',
                   summary 157336 ''Interstellar'', summary 1124 ''The Prestige''])) \<and>
   get_recommendations sample_remote ''key'' Director 27205 (- 1) =
     Inr (JArr [summary 155 ''The Dark Knight'', summary 157336 ''Interstellar'']) \<and>
   int (length [summary 155 ''The Dark Knight'', summary 157336 ''Interstellar'']) \<noteq> - 1"
  by (simp add: run_defs sample_defs other_movie_def)

text \<open>
  C10, amended. Under the director, cast, keywords and rating criteria and a limit
  that is not negative: when the answer to the criterion's discovery query has a
  \<^verbatim>\<open>results\<close> list whose entries all have an id, at least \<open>limit\<close> of them other
  than the source movie, the function returns the first \<open>limit\<close> entries of the list
  filtered, exactly \<open>limit\<close> of them. The filter comes before the truncation.
\<close>

theorem limit_counts_other_movies:
  assumes "c \<noteq> Genre" and "c \<noteq> Combined" and "0 \<le> limit"
    and "listing_request http api_key c movie_id = Inr (Some req)"
    and "http req = Json data"
    and "py_getitem data ''results'' = Inr (JArr movies)"
    and "\<forall>movie\<in>set movies. \<exists>i. py_getitem movie ''id'' = Inr i"
    and "limit \<le> int (length (filter (other_movie movie_id) movies))"
  shows "get_recommendations http api_key c movie_id limit =
           Inr (JArr (take (nat limit) (filter (other_movie movie_id) movies))) \<and>
         int (length (take (nat limit) (filter (other_movie movie_id) movies))) = limit"
proof -
  from assms(7) have "\<forall>movie\<in>set movies. \<exists>b. not_source movie_id movie = Inr b"
    by (auto simp: not_source_def)
  then have "filterE (not_source movie_id) movies = Inr (filter (other_movie movie_id) movies)"
    unfolding other_movie_def by (rule filterE_total)
  with assms(1-6) have "get_recommendations http api_key c movie_id limit =
      Inr (JArr (take (nat limit) (filter (other_movie movie_id) movies)))"
    by (simp add: get_recommendations_by_listing fetch_results_excluding_def slice_to_def)
  moreover from assms(3,8)
  have "int (length (take (nat limit) (filter (other_movie movie_id) movies))) = limit"
    by simp
  ultimately show ?thesis by simp
qed

text \<open>
  The sample list has the source movie in second place. With limit 2 the director
  criterion returns the first and the third entry: truncating first would have left
  one.
\<close>

theorem limit_counts_other_movies_witness:
  "get_recommendations sample_remote ''key'' Director 27205 2 =
     Inr (JArr [summary 155 ''The Dark Knight'', summary 157336 ''Interstellar'']) \<and>
   int (length [summary 155 ''The Dark Knight'', summary 157336 ''Interstellar'']) = 2"
proof -
  let ?query = "Get DiscoverMovie (discover_params ''key'' ''with_crew'' (PVal (JNum 525)))"
  let ?movies = "[summary 155 ''The Dark Knight'', summary 27205 ''Inception'',
                  summary 157336 ''Interstellar'', summary 1124 ''The Prestige'']"
  have kept: "filter (other_movie 27205) ?movies =
      [summary 155 ''The Dark Knight'', summary 157336 ''Interstellar'',
       summary 1124 ''The Prestige'']"
    by (simp add: other_movie_def not_source_def summary_def)
  have h: "Director \<noteq> Genre" "Director \<noteq> Combined" "(0::int) \<le> 2"
    "listing_request sample_remote ''key'' Director 27205 = Inr (Some ?query)"
    "sample_remote ?query = Json sample_listing"
    "py_getitem sample_listing ''results'' = Inr (JArr ?movies)"
    "\<forall>movie\<in>set ?movies. \<exists>i. py_getitem movie ''id'' = Inr i"
    "2 \<le> int (length (filter (other_movie 27205) ?movies))"
    unfolding kept by (simp_all add: run_defs sample_defs)
  from limit_counts_other_movies [where http = sample_remote, OF h] kept
  show ?thesis by simp
qed

end
